theory Spec2Isabelle
  imports Complex_Main "HOL-Library.AList"
begin

section \<open>Data model\<close>

text \<open>
  The payment server keeps everything in one key-value store (Firebase Realtime
  Database): \<^verbatim>\<open>payments/{orderId}\<close>, \<^verbatim>\<open>wallet/{userId}\<close>, \<^verbatim>\<open>system/locks/{lockKey}\<close>,
  \<^verbatim>\<open>system/idempotency/{key}\<close> and \<^verbatim>\<open>settings/upiDetails\<close>, plus one in-process
  \<^verbatim>\<open>Map\<close>, \<^verbatim>\<open>lockCache\<close> (utils/lock.js).

  JavaScript numbers that hold money are modelled as exact rationals, timestamps
  (\<^verbatim>\<open>Date.now()\<close>, milliseconds) as integers; floating-point rounding is outside the
  model. A field that a stored object may lack is an \<open>option\<close>; \<open>None\<close> is
  JavaScript's \<^verbatim>\<open>undefined\<close>.

  Modelled: utils/lock.js (locks and idempotency), \<^verbatim>\<open>checkExpiry\<close> of utils/time.js, the
  order and wallet functions of firebase.js, and the routes \<^verbatim>\<open>/verify\<close>, \<^verbatim>\<open>/recheck\<close>,
  \<^verbatim>\<open>GET /:orderId\<close>, \<^verbatim>\<open>/cancel\<close> and \<^verbatim>\<open>/expire\<close>. Not modelled: logging, the
  \<^verbatim>\<open>setInterval\<close> timer that runs \<^verbatim>\<open>cleanupExpiredLocks\<close> (the function itself is),
  \<^verbatim>\<open>initializeFirebase\<close> (the database is taken as initialised), and the routes that
  only create or read (\<^verbatim>\<open>/create\<close>, the wallet routes, \<^verbatim>\<open>/webhook\<close>).
\<close>

datatype status = PENDING | SUCCESS | CANCELLED | EXPIRED

datatype jsval = Undefined | Num rat | Str string

text \<open>
  An order as routes/orders.js \<^verbatim>\<open>/create\<close> writes it. Every field but \<open>status\<close> is
  optional because \<^verbatim>\<open>orderRef.update\<close> on an absent path creates a node that holds
  the written fields only. \<open>o_extra\<close> holds the annotations that
  \<^verbatim>\<open>updatePaymentOrder\<close> merges in (the first binding of a name is the current one).
\<close>

record order =
  o_orderId :: "string option"
  o_amount :: "rat option"
  o_userId :: "string option"
  o_status :: status
  o_createdAt :: "int option"
  o_expiresAt :: "int option"
  o_updatedAt :: "int option"
  o_extra :: "(string \<times> jsval) list"

datatype txn_type = CREDIT | DEBIT | REFUND | BONUS | PENALTY

record txn =
  t_orderId :: string
  t_amount :: rat
  t_type :: txn_type
  t_timestamp :: int
  t_previousBalance :: rat
  t_newBalance :: rat

record wallet_rec =
  w_balance :: "rat option"
  w_updatedAt :: "int option"
  w_createdAt :: "int option"
  w_history :: "(string \<times> txn) list"

record lock_rec =
  l_token :: string
  l_acquiredAt :: int
  l_expiresAt :: int
  l_owner :: string
  l_timeoutMs :: int
  l_previousToken :: "string option"

record idem_rec =
  i_result :: jsval
  i_expiresAt :: int
  i_storedAt :: int
  i_key :: string

record upi_rec =
  u_upiId :: "string option"
  u_name :: "string option"

text \<open>
  \<^verbatim>\<open>lockCache\<close> holds two shapes of object in the one \<^verbatim>\<open>Map\<close>: \<^verbatim>\<open>{token, expiresAt,
  acquiredAt}\<close> written by \<^verbatim>\<open>acquireLock\<close> and \<^verbatim>\<open>{result, expiresAt}\<close> written by
  \<^verbatim>\<open>withIdempotency\<close>.
\<close>

datatype cache_entry =
    LockEntry string int int
  | IdemEntry jsval int

fun c_expiresAt :: "cache_entry \<Rightarrow> int" where
  "c_expiresAt (LockEntry tok e a) = e"
| "c_expiresAt (IdemEntry r e) = e"

fun c_token :: "cache_entry \<Rightarrow> string option" where
  "c_token (LockEntry tok e a) = Some tok"
| "c_token (IdemEntry r e) = None"

fun c_result :: "cache_entry \<Rightarrow> jsval" where
  "c_result (LockEntry tok e a) = Undefined"
| "c_result (IdemEntry r e) = r"

text \<open>
  The state of the store and of one server process. \<open>now\<close> is what \<^verbatim>\<open>Date.now()\<close>
  returns; it advances only across the \<^verbatim>\<open>setTimeout\<close> back-off of \<^verbatim>\<open>acquireLock\<close>.
  Store round trips are numbered by \<open>ticks\<close>; the round trip number \<open>n\<close> rejects
  (the awaited promise throws) exactly when \<open>faults n\<close> holds.
\<close>

record sys =
  now :: int
  faults :: "nat \<Rightarrow> bool"
  ticks :: nat
  payments :: "(string \<times> order) list"
  wallet :: "string \<Rightarrow> wallet_rec option"
  locks :: "string \<Rightarrow> lock_rec option"
  idempotency :: "string \<Rightarrow> idem_rec option"
  lockCache :: "string \<Rightarrow> cache_entry option"
  upiDetails :: "upi_rec option"

section \<open>Asynchronous code: state and exceptions\<close>

text \<open>
  An \<^verbatim>\<open>async\<close> function is a function of the state that returns the new state and
  either the value it resolves to (\<open>Inr\<close>) or the message of the error it throws
  (\<open>Inl\<close>). The model is sequential: one request runs to its end before the next.
\<close>

type_synonym 'a io = "sys \<Rightarrow> (string + 'a) \<times> sys"

definition io_return :: "'a \<Rightarrow> 'a io" where
  "io_return x = (\<lambda>s. (Inr x, s))"

definition io_throw :: "string \<Rightarrow> 'a io" where
  "io_throw e = (\<lambda>s. (Inl e, s))"

definition io_bind :: "'a io \<Rightarrow> ('a \<Rightarrow> 'b io) \<Rightarrow> 'b io" where
  "io_bind m f = (\<lambda>s. case m s of (Inl e, s') \<Rightarrow> (Inl e, s') | (Inr x, s') \<Rightarrow> f x s')"

definition io_catch :: "'a io \<Rightarrow> (string \<Rightarrow> 'a io) \<Rightarrow> 'a io" where
  "io_catch m h = (\<lambda>s. case m s of (Inl e, s') \<Rightarrow> h e s' | (Inr x, s') \<Rightarrow> (Inr x, s'))"

definition io_get :: "(sys \<Rightarrow> 'a) \<Rightarrow> 'a io" where
  "io_get f = (\<lambda>s. (Inr (f s), s))"

definition io_modify :: "(sys \<Rightarrow> sys) \<Rightarrow> unit io" where
  "io_modify f = (\<lambda>s. (Inr (), f s))"

definition roundtrip :: "unit io" where
  "roundtrip = (\<lambda>s.
     if faults s (ticks s) then (Inl ''store unavailable'', s\<lparr>ticks := Suc (ticks s)\<rparr>)
     else (Inr (), s\<lparr>ticks := Suc (ticks s)\<rparr>))"

definition sleep :: "int \<Rightarrow> unit io" where
  "sleep ms = io_modify (\<lambda>s. s\<lparr>now := now s + ms\<rparr>)"

section \<open>utils/lock.js\<close>

definition DEFAULT_LOCK_TIMEOUT :: int where
  "DEFAULT_LOCK_TIMEOUT = 30000"

definition MAX_LOCK_ATTEMPTS :: nat where
  "MAX_LOCK_ATTEMPTS = 3"

definition LOCK_RETRY_DELAY :: int where
  "LOCK_RETRY_DELAY = 1000"

text \<open>JavaScript truthiness of a token: \<^verbatim>\<open>null\<close> and the empty string are falsy.\<close>

definition truthy :: "string option \<Rightarrow> bool" where
  "truthy t = (case t of None \<Rightarrow> False | Some x \<Rightarrow> x \<noteq> [])"

text \<open>\<^verbatim>\<open>cleanupExpiredLocks\<close>: the timer callback that drops expired cache entries.\<close>

definition cleanupExpiredLocks :: "sys \<Rightarrow> sys" where
  "cleanupExpiredLocks s =
     s\<lparr>lockCache := (\<lambda>k. case lockCache s k of
          None \<Rightarrow> None
        | Some c \<Rightarrow> if c_expiresAt c < now s then None else Some c)\<rparr>"

text \<open>
  The update function that \<^verbatim>\<open>acquireLock\<close> hands to \<^verbatim>\<open>lockRef.transaction\<close>:
  install a fresh record when the key is free or its record has expired, keep the
  record otherwise.
\<close>

definition acquireTxn :: "string \<Rightarrow> int \<Rightarrow> int \<Rightarrow> int \<Rightarrow> lock_rec option \<Rightarrow> lock_rec option" where
  "acquireTxn lockToken lockExpiresAt timeoutMs t currentLock =
     (case currentLock of
        None \<Rightarrow>
          Some \<lparr>l_token = lockToken, l_acquiredAt = t, l_expiresAt = lockExpiresAt,
                l_owner = ''server'', l_timeoutMs = timeoutMs, l_previousToken = None\<rparr>
      | Some c \<Rightarrow>
          if l_expiresAt c < t then
            Some \<lparr>l_token = lockToken, l_acquiredAt = t, l_expiresAt = lockExpiresAt,
                  l_owner = ''server'', l_timeoutMs = timeoutMs,
                  l_previousToken = Some (l_token c)\<rparr>
          else Some c)"

text \<open>
  The \<^verbatim>\<open>for\<close> loop of \<^verbatim>\<open>acquireLock\<close>, attempts \<open>attempt\<close> to \<open>maxAttempts\<close>. A thrown
  transaction is retried after the back-off and rethrown on the last attempt; a
  transaction that leaves another holder's record in place is retried after the
  back-off; running out of attempts returns \<^verbatim>\<open>false\<close> (\<open>None\<close>).
\<close>

function acquireLoop ::
  "string \<Rightarrow> string \<Rightarrow> int \<Rightarrow> int \<Rightarrow> nat \<Rightarrow> nat \<Rightarrow> sys \<Rightarrow> (string + string option) \<times> sys" where
  "acquireLoop lockKey lockToken lockExpiresAt timeoutMs maxAttempts attempt s =
     (if attempt \<le> maxAttempts then
        (case roundtrip s of
           (Inl e, s1) \<Rightarrow>
             if attempt = maxAttempts then (Inl e, s1)
             else acquireLoop lockKey lockToken lockExpiresAt timeoutMs maxAttempts (Suc attempt)
                    (snd (sleep (LOCK_RETRY_DELAY * int attempt) s1))
         | (Inr u, s1) \<Rightarrow>
             let s2 = s1\<lparr>locks := (locks s1)
                        (lockKey := acquireTxn lockToken lockExpiresAt timeoutMs (now s1)
                                      (locks s1 lockKey))\<rparr>
             in if map_option l_token (locks s2 lockKey) = Some lockToken then
                  (Inr (Some lockToken),
                   s2\<lparr>lockCache := (lockCache s2)
                        (lockKey \<mapsto> LockEntry lockToken lockExpiresAt (now s2))\<rparr>)
                else if attempt < maxAttempts then
                  acquireLoop lockKey lockToken lockExpiresAt timeoutMs maxAttempts (Suc attempt)
                    (snd (sleep (LOCK_RETRY_DELAY * int attempt) s2))
                else
                  acquireLoop lockKey lockToken lockExpiresAt timeoutMs maxAttempts (Suc attempt) s2)
      else (Inr None, s))"
  by pat_completeness auto

termination
  by (relation "measure (\<lambda>(lockKey, lockToken, lockExpiresAt, timeoutMs, maxAttempts, attempt, s).
        Suc maxAttempts - attempt)") auto

text \<open>
  \<^verbatim>\<open>acquireLock(lockKey, timeoutMs, maxAttempts)\<close>. The token that
  \<^verbatim>\<open>generateLockToken\<close> draws (16 random bytes in hex) is the argument \<open>lockToken\<close>.
  A live entry in the in-process cache refuses at once.
\<close>

definition acquireLock :: "string \<Rightarrow> int \<Rightarrow> nat \<Rightarrow> string \<Rightarrow> string option io" where
  "acquireLock lockKey timeoutMs maxAttempts lockToken = (\<lambda>s.
     let lockExpiresAt = now s + timeoutMs in
     case lockCache s lockKey of
       Some cachedLock \<Rightarrow>
         if c_expiresAt cachedLock > now s then (Inr None, s)
         else acquireLoop lockKey lockToken lockExpiresAt timeoutMs maxAttempts 1 s
     | None \<Rightarrow> acquireLoop lockKey lockToken lockExpiresAt timeoutMs maxAttempts 1 s)"

text \<open>The update function of \<^verbatim>\<open>releaseLock\<close>'s transaction.\<close>

definition releaseTxn :: "string option \<Rightarrow> lock_rec option \<Rightarrow> lock_rec option" where
  "releaseTxn lockToken currentLock =
     (case currentLock of
        None \<Rightarrow> None
      | Some c \<Rightarrow> if truthy lockToken \<and> Some (l_token c) \<noteq> lockToken then Some c else None)"

text \<open>
  \<^verbatim>\<open>releaseLock(lockKey, lockToken = null)\<close>. The cache entry is dropped only when its
  token is the supplied one. The transaction never aborts, so \<^verbatim>\<open>result.committed\<close> is
  true whenever the round trip does not throw, and the function returns \<^verbatim>\<open>true\<close>.
\<close>

definition releaseLock :: "string \<Rightarrow> string option \<Rightarrow> bool io" where
  "releaseLock lockKey lockToken = (\<lambda>s.
     let s1 = (case lockCache s lockKey of
                 None \<Rightarrow> s
               | Some cachedLock \<Rightarrow>
                   if lockToken \<noteq> None \<and> c_token cachedLock = lockToken
                   then s\<lparr>lockCache := (lockCache s)(lockKey := None)\<rparr> else s)
     in io_bind roundtrip (\<lambda>u s2.
          (Inr True, s2\<lparr>locks := (locks s2)(lockKey := releaseTxn lockToken (locks s2 lockKey))\<rparr>)) s1)"

text \<open>
  \<^verbatim>\<open>isLocked(lockKey)\<close>: a live cache entry answers \<^verbatim>\<open>true\<close>; otherwise the store is
  read, an expired record is reaped with a token-less release, and any error
  answers \<^verbatim>\<open>true\<close>.
\<close>

definition isLocked :: "string \<Rightarrow> bool io" where
  "isLocked lockKey = (\<lambda>s.
     if (case lockCache s lockKey of None \<Rightarrow> False | Some c \<Rightarrow> c_expiresAt c > now s)
     then (Inr True, s)
     else io_catch
            (io_bind roundtrip (\<lambda>u s1.
               case locks s1 lockKey of
                 None \<Rightarrow> (Inr False, s1)
               | Some lockData \<Rightarrow>
                   if l_expiresAt lockData < now s1
                   then io_bind (releaseLock lockKey None) (\<lambda>r. io_return False) s1
                   else (Inr True, s1)))
            (\<lambda>e. io_return True) s)"

text \<open>
  \<^verbatim>\<open>withIdempotency(idempotencyKey, operation)\<close>. The cache is consulted first and a
  hit returns \<^verbatim>\<open>cachedResult.result\<close>; then the store, where a record counts only
  while \<^verbatim>\<open>data.expiresAt > Date.now()\<close>; otherwise the operation runs and its result
  is stored with a TTL of five minutes.
\<close>

definition withIdempotency :: "string \<Rightarrow> jsval io \<Rightarrow> jsval io" where
  "withIdempotency idempotencyKey operation = (\<lambda>s.
     let memoryKey = ''idempotency:'' @ idempotencyKey in
     case lockCache s memoryKey of
       Some cachedResult \<Rightarrow> (Inr (c_result cachedResult), s)
     | None \<Rightarrow>
         io_bind roundtrip (\<lambda>u s1.
           let run = io_bind operation (\<lambda>result s2.
                 let expiresAt = now s2 + 5 * 60 * 1000 in
                 io_bind roundtrip (\<lambda>u s3.
                   (Inr result,
                    s3\<lparr>idempotency := (idempotency s3)(idempotencyKey \<mapsto>
                          \<lparr>i_result = result, i_expiresAt = expiresAt, i_storedAt = now s3,
                           i_key = take 32 idempotencyKey\<rparr>),
                        lockCache := (lockCache s3)(memoryKey \<mapsto> IdemEntry result expiresAt)\<rparr>)) s2)
           in case idempotency s1 idempotencyKey of
                None \<Rightarrow> run s1
              | Some data \<Rightarrow>
                  if i_expiresAt data > now s1
                  then (Inr (i_result data),
                        s1\<lparr>lockCache := (lockCache s1)
                             (memoryKey \<mapsto> IdemEntry (i_result data) (i_expiresAt data))\<rparr>)
                  else run s1) s)"

section \<open>utils/time.js and config.js\<close>

text \<open>
  The three settings of config.js that the order and payment routes read. Their
  values depend on \<^verbatim>\<open>NODE_ENV\<close> (expiry is 5 minutes in development, 10 in
  production, 2 in staging), so the routes take the configuration as an argument.
\<close>

record config =
  ORDER_EXPIRY_MINUTES :: int
  ORDER_LOCK_TIMEOUT :: int
  PAYMENT_VERIFICATION_TIMEOUT :: int

definition developmentConfig :: config where
  "developmentConfig =
     \<lparr>ORDER_EXPIRY_MINUTES = 5, ORDER_LOCK_TIMEOUT = 30000, PAYMENT_VERIFICATION_TIMEOUT = 45000\<rparr>"

definition calculateExpiryTime :: "int \<Rightarrow> int \<Rightarrow> int" where
  "calculateExpiryTime createdAt expiryMinutes = createdAt + expiryMinutes * 60 * 1000"

text \<open>
  \<^verbatim>\<open>checkExpiry(createdAt, expiryMinutes)\<close>: \<^verbatim>\<open>currentTime > expiryTime\<close>. With
  \<^verbatim>\<open>createdAt\<close> undefined the expiry time is \<^verbatim>\<open>NaN\<close> and the comparison is false.
\<close>

definition checkExpiry :: "int option \<Rightarrow> int \<Rightarrow> sys \<Rightarrow> bool" where
  "checkExpiry createdAt expiryMinutes s =
     (let currentTime = now s in
      case createdAt of
        None \<Rightarrow> False
      | Some c \<Rightarrow> currentTime > calculateExpiryTime c expiryMinutes)"

section \<open>firebase.js\<close>

text \<open>\<^verbatim>\<open>getUPIDetails\<close> reads \<^verbatim>\<open>settings/upiDetails\<close> and throws when it is absent.\<close>

definition getUPIDetails :: "upi_rec io" where
  "getUPIDetails = io_bind roundtrip (\<lambda>u s.
     case upiDetails s of
       None \<Rightarrow> (Inl ''UPI details not found in Firebase'', s)
     | Some d \<Rightarrow> (Inr d, s))"

definition getPaymentOrder :: "string \<Rightarrow> order option io" where
  "getPaymentOrder orderId = io_bind roundtrip (\<lambda>u. io_get (\<lambda>s. map_of (payments s) orderId))"

text \<open>
  \<^verbatim>\<open>orderRef.update({status, updatedAt, ...updateData})\<close>: the written fields are
  merged into the stored object; an absent object is created from them.
\<close>

definition mergeUpdate :: "status \<Rightarrow> int \<Rightarrow> (string \<times> jsval) list \<Rightarrow> order option \<Rightarrow> order" where
  "mergeUpdate st t updateData cur =
     (case cur of
        None \<Rightarrow>
          \<lparr>o_orderId = None, o_amount = None, o_userId = None, o_status = st,
           o_createdAt = None, o_expiresAt = None, o_updatedAt = Some t, o_extra = updateData\<rparr>
      | Some ord \<Rightarrow> ord\<lparr>o_status := st, o_updatedAt := Some t, o_extra := updateData @ o_extra ord\<rparr>)"

definition updatePaymentOrder :: "string \<Rightarrow> status \<Rightarrow> (string \<times> jsval) list \<Rightarrow> unit io" where
  "updatePaymentOrder orderId st updateData = (\<lambda>s.
     let t = now s in
     io_bind roundtrip (\<lambda>u. io_modify (\<lambda>s1.
       s1\<lparr>payments := AList.update orderId
             (mergeUpdate st t updateData (map_of (payments s1) orderId)) (payments s1)\<rparr>)) s)"

text \<open>
  \<^verbatim>\<open>updateWalletBalance(userId, amount, orderId, transactionType)\<close>: one transaction
  on \<^verbatim>\<open>wallet/{userId}\<close> that adds the amount to the balance (creating the wallet when
  absent), then a separate \<^verbatim>\<open>set\<close> of \<^verbatim>\<open>wallet/{userId}/history/{orderId}\<close>, which
  replaces an entry already stored under that orderId. It resolves to the wallet as
  the transaction left it. The update function always returns a wallet, so the
  transaction never aborts and \<^verbatim>\<open>result.committed\<close> is true whenever it does not throw.
\<close>

definition walletTxn :: "rat \<Rightarrow> int \<Rightarrow> wallet_rec option \<Rightarrow> wallet_rec" where
  "walletTxn amount t currentWallet =
     (case currentWallet of
        None \<Rightarrow> \<lparr>w_balance = Some amount, w_updatedAt = Some t, w_createdAt = Some t, w_history = []\<rparr>
      | Some w \<Rightarrow>
          w\<lparr>w_balance := Some ((case w_balance w of None \<Rightarrow> 0 | Some b \<Rightarrow> b) + amount),
            w_updatedAt := Some t\<rparr>)"

definition setHistory :: "string \<Rightarrow> txn \<Rightarrow> wallet_rec option \<Rightarrow> wallet_rec" where
  "setHistory orderId entry cur =
     (case cur of
        None \<Rightarrow> \<lparr>w_balance = None, w_updatedAt = None, w_createdAt = None,
                 w_history = [(orderId, entry)]\<rparr>
      | Some w \<Rightarrow> w\<lparr>w_history := AList.update orderId entry (w_history w)\<rparr>)"

definition updateWalletBalance :: "string \<Rightarrow> rat \<Rightarrow> string \<Rightarrow> txn_type \<Rightarrow> wallet_rec io" where
  "updateWalletBalance userId amount orderId transactionType =
     io_bind roundtrip (\<lambda>u s1.
       let snapshot = walletTxn amount (now s1) (wallet s1 userId);
           s2 = s1\<lparr>wallet := (wallet s1)(userId \<mapsto> snapshot)\<rparr>;
           newBalance = (case w_balance snapshot of None \<Rightarrow> 0 | Some b \<Rightarrow> b);
           entry = \<lparr>t_orderId = orderId, t_amount = amount, t_type = transactionType,
                    t_timestamp = now s2, t_previousBalance = newBalance - amount,
                    t_newBalance = newBalance\<rparr>
       in io_bind roundtrip (\<lambda>u s3.
            (Inr snapshot,
             s3\<lparr>wallet := (wallet s3)(userId \<mapsto> setHistory orderId entry (wallet s3 userId))\<rparr>)) s2)"

section \<open>routes/payments.js\<close>

text \<open>
  A response is its HTTP status and, when \<^verbatim>\<open>success\<close> is false, its \<^verbatim>\<open>error\<close> code.
  An error handed to \<^verbatim>\<open>next\<close> is answered by the error middleware with 500
  \<^verbatim>\<open>SERVER_ERROR\<close>.
\<close>

datatype response = Success nat | Failure nat string

record verify_req =
  v_orderId :: string
  v_transactionId :: string
  v_transactionRef :: string
  v_upiId :: string
  v_amount :: "rat option"
  v_userId :: string
  v_transactionNote :: string

definition verifyLockKey :: "string \<Rightarrow> string" where
  "verifyLockKey orderId = ''payment:verify:'' @ orderId"

definition orderLockKey :: "string \<Rightarrow> string" where
  "orderLockKey orderId = ''order:'' @ orderId"

text \<open>The recurring \<^verbatim>\<open>await releaseLock(lockKey); return res.status(..).json(..)\<close>.\<close>

definition releaseAndRespond :: "string \<Rightarrow> response \<Rightarrow> response io" where
  "releaseAndRespond lockKey resp = io_bind (releaseLock lockKey None) (\<lambda>r. io_return resp)"

text \<open>Step 9 of \<^verbatim>\<open>/verify\<close>: mark the order as \<^verbatim>\<open>SUCCESS\<close>.\<close>

definition markSuccess :: "verify_req \<Rightarrow> rat \<Rightarrow> unit io" where
  "markSuccess req amountNum = (\<lambda>s.
     updatePaymentOrder (v_orderId req) SUCCESS
       [(''verifiedAt'', Num (of_int (now s))),
        (''transactionId'', Str (v_transactionId req)),
        (''transactionRef'',
           Str (if v_transactionRef req \<noteq> [] then v_transactionRef req else v_transactionId req)),
        (''verifiedBy'', Str ''SERVER_AUTO_VERIFY''),
        (''upiIdUsed'', Str (v_upiId req)),
        (''amountReceived'', Num amountNum)] s)"

text \<open>
  Steps 10 and 11: credit the wallet; when the credit throws, write the order back
  to \<^verbatim>\<open>PENDING\<close> with the error; release the verification lock.
\<close>

definition creditWallet :: "verify_req \<Rightarrow> rat \<Rightarrow> string \<Rightarrow> response io" where
  "creditWallet req amountNum lockKey =
     io_bind
       (io_catch
          (io_bind (updateWalletBalance (v_userId req) amountNum (v_orderId req) CREDIT)
             (\<lambda>w. io_return (Inr w)))
          (\<lambda>e. io_return (Inl e)))
       (\<lambda>walletUpdate.
          case walletUpdate of
            Inl walletError \<Rightarrow>
              io_bind
                (updatePaymentOrder (v_orderId req) PENDING
                   [(''verificationError'', Str ''WALLET_CREDIT_FAILED''),
                    (''errorDetails'', Str walletError)])
                (\<lambda>u. releaseAndRespond lockKey (Failure 500 ''WALLET_CREDIT_ERROR''))
          | Inr (w :: wallet_rec) \<Rightarrow> releaseAndRespond lockKey (Success 200))"

definition verifyCommit :: "verify_req \<Rightarrow> rat \<Rightarrow> string \<Rightarrow> response io" where
  "verifyCommit req amountNum lockKey =
     io_bind (markSuccess req amountNum) (\<lambda>u. creditWallet req amountNum lockKey)"

text \<open>Steps 1 to 8 of \<^verbatim>\<open>/verify\<close>, run while the verification lock is held.\<close>

definition verifyLocked :: "config \<Rightarrow> verify_req \<Rightarrow> rat \<Rightarrow> string \<Rightarrow> response io" where
  "verifyLocked cfg req amountNum lockKey =
     io_bind (getPaymentOrder (v_orderId req)) (\<lambda>found.
       case found of
         None \<Rightarrow> releaseAndRespond lockKey (Failure 404 ''ORDER_NOT_FOUND'')
       | Some ord \<Rightarrow>
           if o_status ord \<noteq> PENDING then
             releaseAndRespond lockKey (Failure 400 ''ORDER_INVALID_STATUS'')
           else io_bind (io_get (checkExpiry (o_createdAt ord) (ORDER_EXPIRY_MINUTES cfg))) (\<lambda>isExpired.
             if isExpired then
               io_bind (io_get now) (\<lambda>t.
               io_bind
                 (updatePaymentOrder (v_orderId req) EXPIRED
                    [(''autoExpiredAt'', Num (of_int t)),
                     (''expiryReason'', Str ''EXPIRED_BEFORE_VERIFICATION'')])
                 (\<lambda>u. releaseAndRespond lockKey (Failure 400 ''ORDER_EXPIRED'')))
             else io_bind
               (if o_status ord = CANCELLED then io_return True
                else isLocked (orderLockKey (v_orderId req)))
               (\<lambda>cancelled.
                  if cancelled then releaseAndRespond lockKey (Failure 400 ''ORDER_CANCELLED'')
                  else if (case o_amount ord of
                             None \<Rightarrow> False
                           | Some orderAmount \<Rightarrow> \<bar>amountNum - orderAmount\<bar> > 1 / 100)
                  then releaseAndRespond lockKey (Failure 400 ''AMOUNT_MISMATCH'')
                  else io_bind
                    (io_catch (io_bind getUPIDetails (\<lambda>d. io_return (Some d)))
                       (\<lambda>e. io_return None))
                    (\<lambda>currentUPIDetails.
                       case currentUPIDetails of
                         None \<Rightarrow> releaseAndRespond lockKey (Failure 500 ''UPI_VERIFICATION_ERROR'')
                       | Some d \<Rightarrow>
                           if u_upiId d \<noteq> Some (v_upiId req) then
                             releaseAndRespond lockKey (Failure 400 ''UPI_MISMATCH'')
                           else verifyCommit req amountNum lockKey))))"

text \<open>
  \<^verbatim>\<open>POST /api/payment/verify\<close>. A missing body field is the empty string, a missing or
  unparsable amount is \<open>None\<close>. The handler's \<^verbatim>\<open>catch\<close> releases the lock when
  \<^verbatim>\<open>lockAcquired\<close> is set, swallows an error of that release, and calls \<^verbatim>\<open>next\<close>.
\<close>

definition verifyPayment :: "config \<Rightarrow> verify_req \<Rightarrow> string \<Rightarrow> sys \<Rightarrow> response \<times> sys" where
  "verifyPayment cfg req lockToken s =
     (if v_orderId req = [] \<or> v_transactionId req = [] \<or> v_upiId req = []
         \<or> v_amount req = None \<or> v_amount req = Some 0 \<or> v_userId req = []
      then (Failure 400 ''VALIDATION_ERROR'', s)
      else let amountNum = (case v_amount req of None \<Rightarrow> 0 | Some a \<Rightarrow> a) in
        if amountNum \<le> 0 then (Failure 400 ''VALIDATION_ERROR'', s)
        else let lockKey = verifyLockKey (v_orderId req) in
          case acquireLock lockKey (PAYMENT_VERIFICATION_TIMEOUT cfg) MAX_LOCK_ATTEMPTS lockToken s of
            (Inl e, s1) \<Rightarrow> (Failure 500 ''SERVER_ERROR'', s1)
          | (Inr lockAcquired, s1) \<Rightarrow>
              if \<not> truthy lockAcquired then (Failure 409 ''VERIFICATION_IN_PROGRESS'', s1)
              else (case verifyLocked cfg req amountNum lockKey s1 of
                      (Inr resp, s2) \<Rightarrow> (resp, s2)
                    | (Inl e, s2) \<Rightarrow>
                        (Failure 500 ''SERVER_ERROR'', snd (releaseLock lockKey None s2))))"

text \<open>
  \<^verbatim>\<open>POST /api/payment/recheck\<close>. A pending order older than the expiry time is
  expired under the order lock when the lock is acquired; any error in that block
  answers that the order is still pending.
\<close>

definition recheck :: "config \<Rightarrow> string \<Rightarrow> string \<Rightarrow> string \<Rightarrow> sys \<Rightarrow> response \<times> sys" where
  "recheck cfg orderId userId lockToken s =
     (if orderId = [] \<or> userId = [] then (Failure 400 ''VALIDATION_ERROR'', s)
      else case getPaymentOrder orderId s of
        (Inl e, s1) \<Rightarrow> (Failure 500 ''SERVER_ERROR'', s1)
      | (Inr None, s1) \<Rightarrow> (Failure 404 ''ORDER_NOT_FOUND'', s1)
      | (Inr (Some ord), s1) \<Rightarrow>
          if o_userId ord \<noteq> Some userId then (Failure 403 ''UNAUTHORIZED'', s1)
          else let currentTime = now s1;
                   expiryTime = ORDER_EXPIRY_MINUTES cfg * 60 * 1000
          in (case o_status ord of
                SUCCESS \<Rightarrow> (Success 200, s1)
              | PENDING \<Rightarrow>
                  if (case o_createdAt ord of None \<Rightarrow> False | Some c \<Rightarrow> currentTime - c > expiryTime)
                  then (case io_bind (acquireLock (orderLockKey orderId) (ORDER_LOCK_TIMEOUT cfg)
                                        MAX_LOCK_ATTEMPTS lockToken)
                               (\<lambda>lockAcquired.
                                  if truthy lockAcquired then
                                    io_bind
                                      (updatePaymentOrder orderId EXPIRED
                                         [(''autoExpiredAt'', Num (of_int currentTime)),
                                          (''expiryReason'', Str ''EXPIRED_ON_RECHECK'')])
                                      (\<lambda>u. io_bind (releaseLock (orderLockKey orderId) None)
                                              (\<lambda>r. io_return ()))
                                  else io_return ()) s1 of
                          (Inr u, s2) \<Rightarrow> (Failure 400 ''ORDER_EXPIRED'', s2)
                        | (Inl lockError, s2) \<Rightarrow> (Success 200, s2))
                  else (Success 200, s1)
              | CANCELLED \<Rightarrow> (Failure 400 ''ORDER_CANCELLED'', s1)
              | EXPIRED \<Rightarrow> (Failure 400 ''ORDER_EXPIRED'', s1)))"

section \<open>routes/orders.js\<close>

text \<open>
  The auto-expire block of \<^verbatim>\<open>GET /api/order/:orderId\<close>:
  \<^verbatim>\<open>try { await acquireLock(..); await updatePaymentOrder(orderId, 'EXPIRED', ..); } catch {}\<close>.
  The value that \<^verbatim>\<open>acquireLock\<close> resolves to is not looked at.
\<close>

definition getOrderAutoExpire :: "config \<Rightarrow> string \<Rightarrow> int \<Rightarrow> string \<Rightarrow> unit io" where
  "getOrderAutoExpire cfg orderId currentTime lockToken =
     io_catch
       (io_bind (acquireLock (orderLockKey orderId) (ORDER_LOCK_TIMEOUT cfg) MAX_LOCK_ATTEMPTS lockToken)
          (\<lambda>lockAcquired.
             updatePaymentOrder orderId EXPIRED [(''autoExpiredAt'', Num (of_int currentTime))]))
       (\<lambda>lockError. io_return ())"

text \<open>
  \<^verbatim>\<open>GET /api/order/:orderId\<close>. \<^verbatim>\<open>expiresAt\<close> is the stored one, or
  \<^verbatim>\<open>createdAt + ORDER_EXPIRY_MINUTES\<close> when the stored one is falsy; with neither it
  is \<^verbatim>\<open>NaN\<close> (\<open>None\<close>) and \<^verbatim>\<open>remainingTime === 0\<close> is false.
\<close>

definition getOrder :: "config \<Rightarrow> string \<Rightarrow> string \<Rightarrow> sys \<Rightarrow> response \<times> sys" where
  "getOrder cfg orderId lockToken s =
     (if orderId = [] then (Failure 400 ''VALIDATION_ERROR'', s)
      else case getPaymentOrder orderId s of
        (Inl e, s1) \<Rightarrow> (Failure 500 ''SERVER_ERROR'', s1)
      | (Inr None, s1) \<Rightarrow> (Failure 404 ''ORDER_NOT_FOUND'', s1)
      | (Inr (Some ord), s1) \<Rightarrow>
          (case isLocked (orderLockKey orderId) s1 of
             (Inl e, s2) \<Rightarrow> (Failure 500 ''SERVER_ERROR'', s2)
           | (Inr locked, s2) \<Rightarrow>
               if locked then (Failure 400 ''ORDER_LOCKED'', s2)
               else let currentTime = now s2;
                        fallback = map_option
                          (\<lambda>c. c + ORDER_EXPIRY_MINUTES cfg * 60 * 1000) (o_createdAt ord);
                        expiresAt = (case o_expiresAt ord of
                                       None \<Rightarrow> fallback
                                     | Some e \<Rightarrow> if e \<noteq> 0 then Some e else fallback);
                        isExpired = (case expiresAt of
                                       None \<Rightarrow> False
                                     | Some e \<Rightarrow> max 0 (e - currentTime) = 0)
               in if isExpired \<and> o_status ord = PENDING
                  then (Success 200, snd (getOrderAutoExpire cfg orderId currentTime lockToken s2))
                  else (Success 200, s2)))"

text \<open>\<^verbatim>\<open>POST /api/order/cancel\<close>.\<close>

definition cancelLocked :: "config \<Rightarrow> string \<Rightarrow> string \<Rightarrow> string \<Rightarrow> response io" where
  "cancelLocked cfg orderId userId lockKey =
     io_bind (getPaymentOrder orderId) (\<lambda>found.
       case found of
         None \<Rightarrow> releaseAndRespond lockKey (Failure 404 ''ORDER_NOT_FOUND'')
       | Some ord \<Rightarrow>
           if o_userId ord \<noteq> Some userId then
             releaseAndRespond lockKey (Failure 403 ''UNAUTHORIZED'')
           else if o_status ord \<noteq> PENDING then
             releaseAndRespond lockKey (Failure 400 ''ORDER_NOT_CANCELLABLE'')
           else io_bind (io_get (checkExpiry (o_createdAt ord) (ORDER_EXPIRY_MINUTES cfg))) (\<lambda>isExpired.
             if isExpired then releaseAndRespond lockKey (Failure 400 ''ORDER_EXPIRED'')
             else io_bind (io_get now) (\<lambda>t.
               io_bind
                 (updatePaymentOrder orderId CANCELLED
                    [(''cancelledAt'', Num (of_int t)), (''cancelledBy'', Str userId)])
                 (\<lambda>u. releaseAndRespond lockKey (Success 200)))))"

definition cancelOrder :: "config \<Rightarrow> string \<Rightarrow> string \<Rightarrow> string \<Rightarrow> sys \<Rightarrow> response \<times> sys" where
  "cancelOrder cfg orderId userId lockToken s =
     (if orderId = [] \<or> userId = [] then (Failure 400 ''VALIDATION_ERROR'', s)
      else let lockKey = orderLockKey orderId in
        case acquireLock lockKey (ORDER_LOCK_TIMEOUT cfg) MAX_LOCK_ATTEMPTS lockToken s of
          (Inl e, s1) \<Rightarrow> (Failure 500 ''SERVER_ERROR'', s1)
        | (Inr lockAcquired, s1) \<Rightarrow>
            if \<not> truthy lockAcquired then (Failure 409 ''ORDER_BEING_PROCESSED'', s1)
            else (case cancelLocked cfg orderId userId lockKey s1 of
                    (Inr resp, s2) \<Rightarrow> (resp, s2)
                  | (Inl e, s2) \<Rightarrow>
                      (Failure 500 ''SERVER_ERROR'', snd (releaseLock lockKey None s2))))"

text \<open>
  \<^verbatim>\<open>expirePendingOrders(batchSize)\<close>. The query
  \<^verbatim>\<open>orderByChild('status').equalTo('PENDING').limitToFirst(batchSize)\<close> is one round
  trip; the association list \<open>payments\<close> stands for the store's children in the order
  the query walks them. Each order older than the expiry time is expired under its
  order lock when that lock is acquired; an error of one order is logged and the
  loop goes on. \<open>gen orderId\<close> is the lock token drawn for that order.
\<close>

definition pendingSnapshot :: "nat \<Rightarrow> (string \<times> order) list \<Rightarrow> (string \<times> order) list" where
  "pendingSnapshot batchSize ps =
     take batchSize
       (filter (\<lambda>(k, ord). o_status ord = PENDING)
          (map (\<lambda>k. (k, the (map_of ps k))) (remdups (map fst ps))))"

fun expireLoop ::
  "config \<Rightarrow> (string \<Rightarrow> string) \<Rightarrow> int \<Rightarrow> (string \<times> order) list \<Rightarrow> nat \<Rightarrow> nat io" where
  "expireLoop cfg gen currentTime [] expiredCount = io_return expiredCount"
| "expireLoop cfg gen currentTime ((orderId, ord) # rest) expiredCount =
     (if (case o_createdAt ord of
            None \<Rightarrow> False
          | Some c \<Rightarrow> currentTime - c > ORDER_EXPIRY_MINUTES cfg * 60 * 1000)
      then io_bind
             (io_catch
                (io_bind (acquireLock (orderLockKey orderId) (ORDER_LOCK_TIMEOUT cfg)
                            MAX_LOCK_ATTEMPTS (gen orderId))
                   (\<lambda>lockAcquired.
                      if truthy lockAcquired then
                        io_bind
                          (updatePaymentOrder orderId EXPIRED
                             [(''autoExpiredAt'', Num (of_int currentTime)),
                              (''expiryReason'', Str ''AUTO_EXPIRED_BY_SYSTEM'')])
                          (\<lambda>u. io_bind (releaseLock (orderLockKey orderId) None)
                                  (\<lambda>r. io_return (Suc expiredCount)))
                      else io_return expiredCount))
                (\<lambda>e. io_return expiredCount))
             (expireLoop cfg gen currentTime rest)
      else expireLoop cfg gen currentTime rest expiredCount)"

definition expirePendingOrders :: "config \<Rightarrow> nat \<Rightarrow> (string \<Rightarrow> string) \<Rightarrow> nat io" where
  "expirePendingOrders cfg batchSize gen =
     io_bind roundtrip (\<lambda>u s.
       let orders = pendingSnapshot batchSize (payments s) in
       if orders = [] then (Inr 0, s)
       else expireLoop cfg gen (now s) orders 0 s)"

text \<open>\<^verbatim>\<open>POST /api/order/expire\<close>, past its check of the cron secret.\<close>

definition expireOrders :: "config \<Rightarrow> nat \<Rightarrow> (string \<Rightarrow> string) \<Rightarrow> sys \<Rightarrow> response \<times> sys" where
  "expireOrders cfg batchSize gen s =
     (case expirePendingOrders cfg batchSize gen s of
        (Inl e, s1) \<Rightarrow> (Failure 500 ''SERVER_ERROR'', s1)
      | (Inr n, s1) \<Rightarrow> (Success 200, s1))"

section \<open>The operations of the system\<close>

datatype operation =
    VerifyPayment verify_req string
  | CancelOrder string string string
  | ExpireOrders nat "string \<Rightarrow> string"
  | GetOrder string string
  | Recheck string string string

fun run :: "config \<Rightarrow> operation \<Rightarrow> sys \<Rightarrow> response \<times> sys" where
  "run cfg (VerifyPayment req lockToken) s = verifyPayment cfg req lockToken s"
| "run cfg (CancelOrder orderId userId lockToken) s = cancelOrder cfg orderId userId lockToken s"
| "run cfg (ExpireOrders batchSize gen) s = expireOrders cfg batchSize gen s"
| "run cfg (GetOrder orderId lockToken) s = getOrder cfg orderId lockToken s"
| "run cfg (Recheck orderId userId lockToken) s = recheck cfg orderId userId lockToken s"


definition statusOf :: "sys \<Rightarrow> string \<Rightarrow> status option" where
  "statusOf s orderId = map_option o_status (map_of (payments s) orderId)"

section \<open>Observations and invariants\<close>

text \<open>The balance of a user's wallet, 0 when the wallet or its balance is absent.\<close>

definition balanceOf :: "sys \<Rightarrow> string \<Rightarrow> rat" where
  "balanceOf s userId =
     (case wallet s userId of None \<Rightarrow> 0 | Some w \<Rightarrow> (case w_balance w of None \<Rightarrow> 0 | Some b \<Rightarrow> b))"

text \<open>The current value of an annotation of a stored order.\<close>

definition annotation :: "sys \<Rightarrow> string \<Rightarrow> string \<Rightarrow> jsval option" where
  "annotation s orderId name =
     (case map_of (payments s) orderId of None \<Rightarrow> None | Some ord \<Rightarrow> map_of (o_extra ord) name)"








section \<open>Reasoning about asynchronous code\<close>

text \<open>
  \<open>sameData s s'\<close>: the two states differ at most in the locks, the cache, the clock
  and the count of round trips. \<open>keeps m\<close>: the action \<open>m\<close> changes nothing else.
\<close>

definition sameData :: "sys \<Rightarrow> sys \<Rightarrow> bool" where
  "sameData s s' \<longleftrightarrow> payments s' = payments s \<and> wallet s' = wallet s \<and> faults s' = faults s
     \<and> upiDetails s' = upiDetails s \<and> idempotency s' = idempotency s"

definition keeps :: "'a io \<Rightarrow> bool" where
  "keeps m \<longleftrightarrow> (\<forall>s r s'. m s = (r, s') \<longrightarrow> sameData s s')"




section \<open>Concrete states\<close>

definition emptySys :: sys where
  "emptySys =
     \<lparr>now = 0, faults = (\<lambda>n. False), ticks = 0, payments = [], wallet = (\<lambda>k. None),
      locks = (\<lambda>k. None), idempotency = (\<lambda>k. None), lockCache = (\<lambda>k. None),
      upiDetails = None\<rparr>"

text \<open>
  An order of 100 rupees created at time 1000 under the development configuration
  (it expires at 301000), read at time 2000, and a matching verification request.
\<close>

definition demoOrder :: order where
  "demoOrder =
     \<lparr>o_orderId = Some ''O1'', o_amount = Some 100, o_userId = Some ''u1'', o_status = PENDING,
      o_createdAt = Some 1000, o_expiresAt = Some 301000, o_updatedAt = None, o_extra = []\<rparr>"

definition demoSys :: sys where
  "demoSys = emptySys\<lparr>now := 2000, payments := [(''O1'', demoOrder)],
     upiDetails := Some \<lparr>u_upiId = Some ''shop@upi'', u_name = Some ''Shop''\<rparr>\<rparr>"

definition demoReq :: verify_req where
  "demoReq =
     \<lparr>v_orderId = ''O1'', v_transactionId = ''T1'', v_transactionRef = [], v_upiId = ''shop@upi'',
      v_amount = Some 100, v_userId = ''u1'', v_transactionNote = []\<rparr>"

definition heldLock :: "string \<Rightarrow> int \<Rightarrow> lock_rec" where
  "heldLock tok e =
     \<lparr>l_token = tok, l_acquiredAt = 0, l_expiresAt = e, l_owner = ''server'',
      l_timeoutMs = 30000, l_previousToken = None\<rparr>"

text \<open>Another server instance holds \<^verbatim>\<open>order:O1\<close> until time 500000.\<close>

definition lockedSys :: sys where
  "lockedSys = demoSys\<lparr>locks := (locks demoSys)(''order:O1'' \<mapsto> heldLock ''other'' 500000)\<rparr>"

text \<open>The same at time 400000, when the order is past its expiry.\<close>

definition expiredLocked :: sys where
  "expiredLocked = lockedSys\<lparr>now := 400000\<rparr>"

text \<open>The instant at which \<^verbatim>\<open>Date.now()\<close> equals the order's \<^verbatim>\<open>expiresAt\<close>.\<close>

definition atBoundary :: sys where
  "atBoundary = demoSys\<lparr>now := 301000\<rparr>"

text \<open>
  Stores that fail. A verification of the demo order makes its round trips in this
  order: 0 the lock transaction, 1 the order read, 2 the read of \<^verbatim>\<open>order:O1\<close>, 3 the
  UPI details, 4 the \<^verbatim>\<open>SUCCESS\<close> write, 5 the wallet transaction, 6 the history write
  (or, after a failed wallet transaction, the rollback write), then the release.
\<close>

definition walletTxnFails :: sys where
  "walletTxnFails = demoSys\<lparr>faults := (\<lambda>n. n = 5)\<rparr>"

definition walletTxnAndRollbackFail :: sys where
  "walletTxnAndRollbackFail = demoSys\<lparr>faults := (\<lambda>n. n = 5 \<or> n = 6)\<rparr>"

definition historyWriteFails :: sys where
  "historyWriteFails = demoSys\<lparr>faults := (\<lambda>n. n = 6)\<rparr>"

text \<open>The commit steps alone, with a store whose second round trip fails.\<close>

definition creditFails :: sys where
  "creditFails = demoSys\<lparr>faults := (\<lambda>n. n = 1)\<rparr>"




text \<open>An idempotent operation has run once at time 0 under the key \<^verbatim>\<open>k\<close>.\<close>

definition idemStored :: sys where
  "idemStored = snd (withIdempotency ''k'' (io_return (Str ''first'')) emptySys)"



section \<open>Lemmas\<close>

declare acquireLoop.simps [simp del]

lemmas io_defs = io_bind_def io_catch_def io_return_def io_get_def io_modify_def io_throw_def
  roundtrip_def sleep_def

lemmas prim_defs = getPaymentOrder_def updatePaymentOrder_def mergeUpdate_def getUPIDetails_def
  updateWalletBalance_def walletTxn_def setHistory_def releaseLock_def releaseTxn_def
  isLocked_def acquireLock_def acquireTxn_def truthy_def checkExpiry_def calculateExpiryTime_def
  releaseAndRespond_def verifyLockKey_def orderLockKey_def MAX_LOCK_ATTEMPTS_def LOCK_RETRY_DELAY_def

lemmas handler_defs = verifyPayment_def verifyLocked_def verifyCommit_def markSuccess_def
  creditWallet_def getOrder_def getOrderAutoExpire_def cancelOrder_def cancelLocked_def
  recheck_def expireOrders_def expirePendingOrders_def pendingSnapshot_def

lemmas demo_defs = emptySys_def demoOrder_def demoSys_def demoReq_def heldLock_def
  developmentConfig_def lockedSys_def expiredLocked_def atBoundary_def walletTxnFails_def
  walletTxnAndRollbackFail_def historyWriteFails_def creditFails_def

lemmas eval_defs = handler_defs io_defs prim_defs demo_defs acquireLoop.simps Let_def statusOf_def
  annotation_def balanceOf_def

subsection \<open>Actions that leave orders and wallets alone\<close>

lemma sameData_refl [simp]: "sameData s s"
  by (simp add: sameData_def)

lemma sameData_trans: "sameData s s1 \<Longrightarrow> sameData s1 s2 \<Longrightarrow> sameData s s2"
  by (simp add: sameData_def)

lemma keepsD: "keeps m \<Longrightarrow> m s = (r, s') \<Longrightarrow> sameData s s'"
  by (auto simp: keeps_def)




lemma keeps_sleep [intro!, simp]: "keeps (sleep ms)"
  by (auto simp: keeps_def sleep_def io_modify_def sameData_def)


lemma keeps_catch [intro!]:
  assumes "keeps m" and "\<And>e. keeps (h e)"
  shows "keeps (io_catch m h)"
  unfolding keeps_def
proof (intro allI impI)
  fix s r s'
  assume run: "io_catch m h s = (r, s')"
  obtain r1 s1 where m: "m s = (r1, s1)" by (cases "m s")
  then have d1: "sameData s s1" using assms(1) by (rule keepsD[rotated])
  show "sameData s s'"
  proof (cases r1)
    case (Inr x)
    with run m have "s' = s1" by (simp add: io_catch_def)
    with d1 show ?thesis by simp
  next
    case (Inl e)
    with run m have "h e s1 = (r, s')" by (simp add: io_catch_def)
    then have "sameData s1 s'" using assms(2) by (rule keepsD[rotated])
    with d1 show ?thesis by (rule sameData_trans)
  qed
qed

lemma acquireLoop_done: "m < a \<Longrightarrow> acquireLoop k tok e t m a s = (Inr None, s)"
  by (subst acquireLoop.simps) simp

lemma acquireLoop_step:
  "a \<le> m \<Longrightarrow> acquireLoop k tok e t m a s =
     (if faults s (ticks s) then
        (if a = m then (Inl ''store unavailable'', s\<lparr>ticks := Suc (ticks s)\<rparr>)
         else acquireLoop k tok e t m (Suc a)
                (s\<lparr>ticks := Suc (ticks s), now := now s + LOCK_RETRY_DELAY * int a\<rparr>))
      else if map_option l_token (acquireTxn tok e t (now s) (locks s k)) = Some tok then
        (Inr (Some tok),
         s\<lparr>ticks := Suc (ticks s),
           locks := (locks s)(k := acquireTxn tok e t (now s) (locks s k)),
           lockCache := (lockCache s)(k \<mapsto> LockEntry tok e (now s))\<rparr>)
      else if a < m then
        acquireLoop k tok e t m (Suc a)
          (s\<lparr>ticks := Suc (ticks s),
             locks := (locks s)(k := acquireTxn tok e t (now s) (locks s k)),
             now := now s + LOCK_RETRY_DELAY * int a\<rparr>)
      else
        acquireLoop k tok e t m (Suc a)
          (s\<lparr>ticks := Suc (ticks s),
             locks := (locks s)(k := acquireTxn tok e t (now s) (locks s k))\<rparr>))"
  by (subst acquireLoop.simps) (auto simp: io_defs Let_def)

lemma acquireLoop_sameData:
  "acquireLoop k tok e t m a s = (r, s') \<Longrightarrow> sameData s s'"
proof (induction "Suc m - a" arbitrary: a s)
  case 0
  then have "m < a" by simp
  with "0.prems" show ?case by (simp add: acquireLoop_done)
next
  case (Suc n)
  then have le: "a \<le> m" and n: "n = Suc m - Suc a" by simp_all
  have ih: "\<And>s1. acquireLoop k tok e t m (Suc a) s1 = (r, s') \<Longrightarrow> sameData s1 s'"
    using Suc.hyps(1)[OF n] .
  from Suc.prems show ?case
    unfolding acquireLoop_step[OF le]
    by (auto split: if_splits dest!: ih simp: sameData_def)
qed

lemma keeps_acquireLock [intro!, simp]: "keeps (acquireLock k t m tok)"
  by (auto simp: keeps_def acquireLock_def Let_def split: option.splits if_splits
      dest: acquireLoop_sameData)


lemma releaseLock_eq:
  "releaseLock k tok s =
    (let s1 = (case lockCache s k of None \<Rightarrow> s | Some c \<Rightarrow>
           if tok \<noteq> None \<and> c_token c = tok then s\<lparr>lockCache := (lockCache s)(k := None)\<rparr> else s)
     in if faults s (ticks s) then (Inl ''store unavailable'', s1\<lparr>ticks := Suc (ticks s)\<rparr>)
        else (Inr True, s1\<lparr>ticks := Suc (ticks s), locks := (locks s)(k := releaseTxn tok (locks s k))\<rparr>))"
  by (auto simp: releaseLock_def io_bind_def roundtrip_def Let_def split: option.splits)






subsection \<open>Invariants carried through a handler\<close>


















subsection \<open>What the store operations do\<close>









lemma isLocked_held:
  assumes "locks s k = Some l" and "now s \<le> l_expiresAt l"
  shows "\<exists>s'. isLocked k s = (Inr True, s') \<and> sameData s s'"
  using assms
  by (auto simp: isLocked_def io_defs sameData_def split: option.splits)

lemma getPaymentOrder_ok:
  "\<not> faults s (ticks s) \<Longrightarrow>
   getPaymentOrder orderId s = (Inr (map_of (payments s) orderId), s\<lparr>ticks := Suc (ticks s)\<rparr>)"
  by (simp add: getPaymentOrder_def io_defs)

lemma releaseAndRespond_ok:
  "\<not> faults s (ticks s) \<Longrightarrow>
   \<exists>s'. releaseAndRespond k resp s = (Inr resp, s') \<and> sameData s s'"
  by (simp add: releaseAndRespond_def releaseLock_eq io_defs Let_def sameData_def
      split: option.splits)

subsection \<open>The status of an order through the handlers\<close>

















subsection \<open>The wallets through the handlers\<close>










subsection \<open>The verification route\<close>






subsection \<open>The ledger\<close>
















section \<open>The claims\<close>

subsection \<open>C1: the status write and the wallet credit\<close>




subsection \<open>C2: terminal statuses\<close>




subsection \<open>C3: the lock of a verification\<close>




subsection \<open>C4: balance and history\<close>




subsection \<open>C5: the idempotency cache\<close>

text \<open>
  C5 fails on the code. \<^verbatim>\<open>withIdempotency\<close> returns a record of the in-process cache
  without looking at its \<^verbatim>\<open>expiresAt\<close>. The operation ran at time 0 and its record
  expires at 300000; a second call at 300001 in the same process returns the first
  result and runs nothing, leaving the state as it was. The store path does check:
  once the cache entry is gone, the same call runs the operation.
\<close>

theorem withIdempotency_serves_expired_cache:
  "map_option i_expiresAt (idempotency idemStored ''k'') = Some 300000
   \<and> map_option c_expiresAt (lockCache idemStored ''idempotency:k'') = Some 300000
   \<and> withIdempotency ''k'' (io_return (Str ''second'')) (idemStored\<lparr>now := 300001\<rparr>)
        = (Inr (Str ''first''), idemStored\<lparr>now := 300001\<rparr>)
   \<and> fst (withIdempotency ''k'' (io_return (Str ''second''))
            (cleanupExpiredLocks (idemStored\<lparr>now := 300001\<rparr>)))
        = Inr (Str ''second'')"
  by (simp add: idemStored_def withIdempotency_def cleanupExpiredLocks_def eval_defs)

subsection \<open>C6: expiry when the lock is refused\<close>

text \<open>
  C6 fails on the code for the lazy expiry of \<^verbatim>\<open>GET /api/order/:orderId\<close>. Its
  auto-expire block awaits \<^verbatim>\<open>acquireLock\<close> and does not look at what it resolves to,
  so a refusal (\<^verbatim>\<open>false\<close> after three attempts) does not skip the write. With
  \<^verbatim>\<open>order:O1\<close> held by another holder and the order pending and past its expiry, the
  acquisition is refused and the block still writes \<^verbatim>\<open>EXPIRED\<close>. The batch sweep and
  \<^verbatim>\<open>/recheck\<close> test the result and leave the order \<^verbatim>\<open>PENDING\<close> in the same state.
\<close>

theorem getOrder_expires_despite_refusal:
  "statusOf expiredLocked ''O1'' = Some PENDING
   \<and> fst (acquireLock (orderLockKey ''O1'') (ORDER_LOCK_TIMEOUT developmentConfig)
            MAX_LOCK_ATTEMPTS ''mine'' expiredLocked) = Inr None
   \<and> statusOf (snd (getOrderAutoExpire developmentConfig ''O1'' 400000 ''mine'' expiredLocked)) ''O1''
        = Some EXPIRED
   \<and> statusOf (snd (expireOrders developmentConfig 100 (\<lambda>k. ''mine'') expiredLocked)) ''O1''
        = Some PENDING
   \<and> statusOf (snd (recheck developmentConfig ''O1'' ''u1'' ''mine'' expiredLocked)) ''O1''
        = Some PENDING"
  by (simp add: eval_defs)

subsection \<open>C7: the instant of expiry\<close>

text \<open>
  C7 fails on the code at the boundary. \<^verbatim>\<open>checkExpiry\<close> is \<^verbatim>\<open>currentTime > expiryTime\<close>,
  so at the instant \<^verbatim>\<open>now = expiresAt\<close> the order does not count as expired:
  \<^verbatim>\<open>/verify\<close> accepts the payment and marks the order \<^verbatim>\<open>SUCCESS\<close>, and the batch sweep
  (\<^verbatim>\<open>orderAge > expiryTime\<close>) does not expire it. \<^verbatim>\<open>GET /api/order/:orderId\<close> tests
  \<^verbatim>\<open>remainingTime === 0\<close> and expires the same order at the same instant.
\<close>

theorem verify_accepted_at_expiry_instant:
  "o_expiresAt demoOrder = Some (now atBoundary)
   \<and> \<not> checkExpiry (o_createdAt demoOrder) (ORDER_EXPIRY_MINUTES developmentConfig) atBoundary
   \<and> fst (verifyPayment developmentConfig demoReq ''tok'' atBoundary) = Success 200
   \<and> statusOf (snd (verifyPayment developmentConfig demoReq ''tok'' atBoundary)) ''O1''
        = Some SUCCESS
   \<and> statusOf (snd (getOrder developmentConfig ''O1'' ''tok'' atBoundary)) ''O1'' = Some EXPIRED
   \<and> statusOf (snd (expireOrders developmentConfig 100 (\<lambda>k. ''tok'') atBoundary)) ''O1''
        = Some PENDING"
  by (simp add: eval_defs)

subsection \<open>C8: compare-and-clear\<close>



subsection \<open>C9: what a true result of a release says\<close>

text \<open>
  C9. For every key and every supplied (non-empty) token: when the stored record
  belongs to another token and the store answers, \<^verbatim>\<open>releaseLock\<close> returns \<^verbatim>\<open>true\<close>
  and the record is still in place. A result of \<^verbatim>\<open>true\<close> therefore does not say that
  the lock was removed.
\<close>

theorem releaseLock_true_without_clearing:
  assumes "locks s lockKey = Some l" and "lockToken \<noteq> []" and "l_token l \<noteq> lockToken"
    and "\<not> faults s (ticks s)"
  shows "fst (releaseLock lockKey (Some lockToken) s) = Inr True
         \<and> locks (snd (releaseLock lockKey (Some lockToken) s)) lockKey = Some l"
  using assms
  by (auto simp: releaseLock_eq Let_def releaseTxn_def truthy_def split: if_splits option.splits)

text \<open>A release of \<^verbatim>\<open>order:O1\<close> with a token that is not the holder's.\<close>

theorem releaseLock_true_without_clearing_witness:
  "fst (releaseLock ''order:O1'' (Some ''mine'') lockedSys) = Inr True
   \<and> locks (snd (releaseLock ''order:O1'' (Some ''mine'') lockedSys)) ''order:O1''
       = Some (heldLock ''other'' 500000)"
proof -
  have a: "locks lockedSys ''order:O1'' = Some (heldLock ''other'' 500000)"
    and b: "''mine'' \<noteq> []" and c: "l_token (heldLock ''other'' 500000) \<noteq> ''mine''"
    and d: "\<not> faults lockedSys (ticks lockedSys)"
    by (simp_all add: demo_defs)
  from releaseLock_true_without_clearing[OF a b c d] show ?thesis .
qed

subsection \<open>C10: verification while the order lock is held\<close>

text \<open>
  C10, as the code has it. For every order that is stored as \<^verbatim>\<open>PENDING\<close> and is not
  past its expiry, a well-formed \<^verbatim>\<open>/verify\<close> request that acquires its verification
  lock on a store without faults is answered with \<^verbatim>\<open>ORDER_CANCELLED\<close> whenever the
  store holds an unexpired record under \<^verbatim>\<open>order:{orderId}\<close>, and the order records are
  left as they were.
\<close>

theorem verify_rejects_while_order_lock_held:
  assumes req: "v_orderId req \<noteq> []" "v_transactionId req \<noteq> []" "v_upiId req \<noteq> []"
      "v_userId req \<noteq> []" "v_amount req = Some a" "0 < a"
    and acq: "acquireLock (verifyLockKey (v_orderId req)) (PAYMENT_VERIFICATION_TIMEOUT cfg)
                MAX_LOCK_ATTEMPTS lockToken s = (Inr (Some lockToken), s1)"
    and tok: "lockToken \<noteq> []"
    and nofault: "\<forall>n. \<not> faults s n"
    and ord: "map_of (payments s) (v_orderId req) = Some ord" "o_status ord = PENDING"
    and unexpired: "\<not> checkExpiry (o_createdAt ord) (ORDER_EXPIRY_MINUTES cfg) s1"
    and held: "locks s1 (orderLockKey (v_orderId req)) = Some l" "now s1 \<le> l_expiresAt l"
  shows "fst (verifyPayment cfg req lockToken s) = Failure 400 ''ORDER_CANCELLED''
       \<and> payments (snd (verifyPayment cfg req lockToken s)) = payments s"
proof -
  let ?oid = "v_orderId req" and ?k = "verifyLockKey (v_orderId req)"
  have d1: "sameData s s1" using keepsD[OF keeps_acquireLock acq] .
  then have nf1: "\<And>n. \<not> faults s1 n" and p1: "payments s1 = payments s"
    using nofault by (simp_all add: sameData_def)
  let ?s2 = "s1\<lparr>ticks := Suc (ticks s1)\<rparr>"
  have g: "getPaymentOrder ?oid s1 = (Inr (Some ord), ?s2)"
    using getPaymentOrder_ok[of s1 ?oid] nf1 p1 ord by simp
  have ne: "\<not> checkExpiry (o_createdAt ord) (ORDER_EXPIRY_MINUTES cfg) ?s2"
    using unexpired by (simp add: checkExpiry_def)
  have "locks ?s2 (orderLockKey ?oid) = Some l" "now ?s2 \<le> l_expiresAt l" using held by simp_all
  from isLocked_held[OF this] obtain s3 where
    il: "isLocked (orderLockKey ?oid) ?s2 = (Inr True, s3)" and d3: "sameData ?s2 s3" by blast
  have "\<not> faults s3 (ticks s3)" using d3 nf1 by (simp add: sameData_def)
  from releaseAndRespond_ok[OF this] obtain s4 where
    rel: "releaseAndRespond ?k (Failure 400 ''ORDER_CANCELLED'') s3
            = (Inr (Failure 400 ''ORDER_CANCELLED''), s4)"
    and d4: "sameData s3 s4" by blast
  have vl: "verifyLocked cfg req a ?k s1 = (Inr (Failure 400 ''ORDER_CANCELLED''), s4)"
    using g ord(2) ne il rel by (simp add: verifyLocked_def io_bind_def io_get_def)
  have "verifyPayment cfg req lockToken s = (Failure 400 ''ORDER_CANCELLED'', s4)"
    using req acq tok vl by (simp add: verifyPayment_def truthy_def Let_def)
  moreover have "payments s4 = payments s" using d4 d3 p1 by (simp add: sameData_def)
  ultimately show ?thesis by simp
qed

text \<open>The demo order while another holder has \<^verbatim>\<open>order:O1\<close>.\<close>

theorem verify_rejects_while_order_lock_held_witness:
  "statusOf lockedSys ''O1'' = Some PENDING
   \<and> fst (verifyPayment developmentConfig demoReq ''tok'' lockedSys)
        = Failure 400 ''ORDER_CANCELLED''
   \<and> payments (snd (verifyPayment developmentConfig demoReq ''tok'' lockedSys)) = payments lockedSys"
proof -
  let ?s1 = "lockedSys\<lparr>ticks := 1,
        locks := (locks lockedSys)(''payment:verify:O1'' \<mapsto>
           \<lparr>l_token = ''tok'', l_acquiredAt = 2000, l_expiresAt = 47000, l_owner = ''server'',
            l_timeoutMs = 45000, l_previousToken = None\<rparr>),
        lockCache := (lockCache lockedSys)(''payment:verify:O1'' \<mapsto> LockEntry ''tok'' 47000 2000)\<rparr>"
  have acq: "acquireLock (verifyLockKey (v_orderId demoReq))
               (PAYMENT_VERIFICATION_TIMEOUT developmentConfig) MAX_LOCK_ATTEMPTS ''tok'' lockedSys
             = (Inr (Some ''tok''), ?s1)"
    by (simp add: eval_defs)
  have p: "statusOf lockedSys ''O1'' = Some PENDING" by (simp add: eval_defs)
  have "fst (verifyPayment developmentConfig demoReq ''tok'' lockedSys)
          = Failure 400 ''ORDER_CANCELLED''
       \<and> payments (snd (verifyPayment developmentConfig demoReq ''tok'' lockedSys))
          = payments lockedSys"
    by (rule verify_rejects_while_order_lock_held[where a = 100 and ord = demoOrder
          and l = "heldLock ''other'' 500000", OF _ _ _ _ _ _ acq])
       (simp_all add: prim_defs demo_defs)
  with p show ?thesis by simp
qed

text \<open>
  Against C10 as stated: with \<^verbatim>\<open>order:O1\<close> held and the order stored as \<^verbatim>\<open>PENDING\<close> but
  past its expiry, \<^verbatim>\<open>/verify\<close> answers \<^verbatim>\<open>ORDER_EXPIRED\<close> and writes \<^verbatim>\<open>EXPIRED\<close> to
  the order.
\<close>

theorem expired_order_not_cancelled:
  "statusOf expiredLocked ''O1'' = Some PENDING
   \<and> map_option l_token (locks expiredLocked (orderLockKey ''O1'')) = Some ''other''
   \<and> map_option l_expiresAt (locks expiredLocked (orderLockKey ''O1'')) = Some 500000
   \<and> now expiredLocked = 400000
   \<and> fst (verifyPayment developmentConfig demoReq ''tok'' expiredLocked)
        = Failure 400 ''ORDER_EXPIRED''
   \<and> statusOf (snd (verifyPayment developmentConfig demoReq ''tok'' expiredLocked)) ''O1''
        = Some EXPIRED"
  by (simp add: eval_defs)

end
